theory Spec2Isabelle
  imports Complex_Main
begin

section \<open>Python values\<close>

text \<open>
  The session documents are Python objects: what \<^verbatim>\<open>json.loads\<close> returns and what
  callers hand to \<^verbatim>\<open>save_session\<close>. A dict is an association list in insertion
  order, as Python keeps it. \<open>PBytes\<close> stands for a value that a caller's dict can
  hold although \<^verbatim>\<open>json.dumps\<close> rejects it with a TypeError.
\<close>

datatype pyval =
    PNone
  | PBool bool
  | PNum real
  | PStr string
  | PList "pyval list"
  | PDict "(string \<times> pyval) list"
  | PBytes string

type_synonym pydict = "(string \<times> pyval) list"

text \<open>Python truthiness, as used by \<^verbatim>\<open>if not session\<close>.\<close>

fun truthy :: "pyval \<Rightarrow> bool" where
  "truthy PNone = False"
| "truthy (PBool b) = b"
| "truthy (PNum x) = (x \<noteq> 0)"
| "truthy (PStr s) = (s \<noteq> [])"
| "truthy (PList xs) = (xs \<noteq> [])"
| "truthy (PDict d) = (d \<noteq> [])"
| "truthy (PBytes b) = (b \<noteq> [])"

text \<open>\<^verbatim>\<open>d[k] = v\<close>: an existing key keeps its position, a new key goes last.\<close>

fun dict_set :: "pydict \<Rightarrow> string \<Rightarrow> pyval \<Rightarrow> pydict" where
  "dict_set [] k v = [(k, v)]"
| "dict_set ((k', v') # d) k v = (if k' = k then (k, v) # d else (k', v') # dict_set d k v)"

text \<open>\<^verbatim>\<open>d.get(k, default)\<close>.\<close>

definition dict_get :: "pydict \<Rightarrow> string \<Rightarrow> pyval \<Rightarrow> pyval" where
  "dict_get d k dflt = (case map_of d k of None \<Rightarrow> dflt | Some v \<Rightarrow> v)"

text \<open>\<^verbatim>\<open>xs[i:]\<close> for an integer \<open>i\<close>: a negative start counts from the end, and
  both ends are clamped.\<close>

definition slice_from :: "int \<Rightarrow> 'a list \<Rightarrow> 'a list" where
  "slice_from i xs =
     (let len = int (length xs);
          start = (if i < 0 then max (i + len) 0 else min i len)
      in drop (nat start) xs)"

text \<open>The exceptions that the modelled code can raise.\<close>

datatype exn =
    UnboundLocalError | AttributeError | KeyError | TypeError | JSONDecodeError
  | OperationalError

text \<open>\<^verbatim>\<open>for item in v\<close>: the items of a list, the characters of a str, the keys of
  a dict, the byte values of a bytes object; anything else is not iterable.\<close>

fun py_iter :: "pyval \<Rightarrow> exn + pyval list" where
  "py_iter (PList xs) = Inr xs"
| "py_iter (PStr s) = Inr (map (\<lambda>c. PStr [c]) s)"
| "py_iter (PDict d) = Inr (map (\<lambda>kv. PStr (fst kv)) d)"
| "py_iter (PBytes b) = Inr (map (\<lambda>c. PNum (of_nat (of_char c))) b)"
| "py_iter PNone = Inl TypeError"
| "py_iter (PBool b) = Inl TypeError"
| "py_iter (PNum x) = Inl TypeError"

section \<open>The environment and the world\<close>

text \<open>
  One row of \<^verbatim>\<open>game_sessions\<close> (scripts/init_db.py): \<^verbatim>\<open>player_id VARCHAR(255) PRIMARY KEY\<close>,
  \<^verbatim>\<open>session_data TEXT\<close> (nullable), \<^verbatim>\<open>last_modified TIMESTAMP DEFAULT CURRENT_TIMESTAMP
  ON UPDATE CURRENT_TIMESTAMP\<close>.
\<close>

record row =
  col_player_id :: string
  col_session_data :: "string option"
  col_last_modified :: nat

datatype loglevel = ERROR | WARNING | INFO

text \<open>Effects that leave the process: a commit, the two real-time sinks, and the
  release of a cursor and of a connection.\<close>

datatype event =
    Committed string string
  | WsSend string pyval
  | LiveUpdate string pyval
  | CursorClosed nat
  | ConnClosed nat

text \<open>
  Everything the code does not decide itself. \<open>scheme\<close> is
  \<^verbatim>\<open>urlparse(settings.DATABASE_URL).scheme\<close>. The failure oracles are indexed by the
  number of the \<^verbatim>\<open>get_db_connection\<close> call that produced the connection, so that
  every call can meet a different backend behaviour. \<^verbatim>\<open>json.dumps\<close>,
  \<^verbatim>\<open>json.loads\<close> (\<open>None\<close> when they raise) and \<^verbatim>\<open>security.encrypt_player_id\<close>
  are library or collaborator code and are parameters.
\<close>

record env =
  scheme :: string
  sqlite_connect_fails :: "nat \<Rightarrow> bool"
  pool_borrow_fails :: "nat \<Rightarrow> bool"
  execute_fails :: "nat \<Rightarrow> bool"
  commit_fails :: "nat \<Rightarrow> bool"
  is_connected :: "nat \<Rightarrow> bool"
  time_time :: "nat \<Rightarrow> real"
  current_timestamp :: "nat \<Rightarrow> nat"
  json_dumps :: "pyval \<Rightarrow> string option"
  json_loads :: "string \<Rightarrow> pyval option"
  encrypt_player_id :: "string \<Rightarrow> string"

text \<open>The mutable state: the module global \<^verbatim>\<open>db_pool\<close> (\<open>False\<close> for
  \<^verbatim>\<open>None\<close>), the table, the log, the trace of effects and the number of connection
  requests made so far.\<close>

record world =
  db_pool :: bool
  table :: "row list"
  log :: "(loglevel \<times> string) list"
  trace :: "event list"
  calls :: nat

definition logmsg :: "loglevel \<Rightarrow> string \<Rightarrow> world \<Rightarrow> world" where
  "logmsg lv msg w = w\<lparr>log := log w @ [(lv, msg)]\<rparr>"

definition emit :: "event list \<Rightarrow> world \<Rightarrow> world" where
  "emit evs w = w\<lparr>trace := trace w @ evs\<rparr>"

section \<open>db.py\<close>

datatype conn = SqliteConn nat | MysqlConn nat

fun conn_no :: "conn \<Rightarrow> nat" where
  "conn_no (SqliteConn t) = t"
| "conn_no (MysqlConn t) = t"

text \<open>\<^verbatim>\<open>get_db_connection\<close>: every failure is logged and returns \<^verbatim>\<open>None\<close>.\<close>

definition get_db_connection :: "env \<Rightarrow> world \<Rightarrow> conn option \<times> world" where
  "get_db_connection e w =
     (let t = calls w; w1 = w\<lparr>calls := Suc t\<rparr> in
      if scheme e = ''sqlite'' then
        (if sqlite_connect_fails e t
         then (None, logmsg ERROR ''Database connection failed'' w1)
         else (Some (SqliteConn t), w1))
      else if scheme e = ''mysql'' then
        (if db_pool w = False
         then (None, logmsg ERROR ''MySQL pool is not initialized. Cannot get connection.'' w1)
         else if pool_borrow_fails e t
         then (None, logmsg ERROR ''Database connection failed'' w1)
         else (Some (MysqlConn t), w1))
      else (None, logmsg ERROR (''Unsupported database scheme: '' @ scheme e) w1))"

section \<open>state_manager.py\<close>

text \<open>
  \<^verbatim>\<open>cursor.execute\<close> of the module's statements. They are written in the MySQL
  dialect (\<^verbatim>\<open>%s\<close> placeholders, \<^verbatim>\<open>ON DUPLICATE KEY UPDATE\<close>), which SQLite rejects
  with a syntax error; on a MySQL connection the backend decides.
\<close>

fun execute_raises :: "env \<Rightarrow> conn \<Rightarrow> bool" where
  "execute_raises e (SqliteConn t) = True"
| "execute_raises e (MysqlConn t) = execute_fails e t"

text \<open>
  The \<^verbatim>\<open>finally\<close> block shared by the three database functions:
  \<^verbatim>\<open>
    if conn and hasattr(conn, 'is_connected') and conn.is_connected():
        cursor.close()
        conn.close()
    elif conn:
        conn.close()
  \<close>
  Only the MySQL connection has \<^verbatim>\<open>is_connected\<close>. \<open>cursor_bound\<close> says whether the
  \<^verbatim>\<open>try\<close> block reached its assignment to \<^verbatim>\<open>cursor\<close>; reading the unassigned
  local raises UnboundLocalError, and the connection is then not closed. On a pooled
  MySQL handle that is no longer connected the \<^verbatim>\<open>elif\<close> branch runs
  \<^verbatim>\<open>conn.close()\<close>, which resets the session before it hands the handle back and
  raises OperationalError on the lost connection. \<open>ConnClosed\<close> and \<open>CursorClosed\<close>
  record the calls that returned.
\<close>

fun release :: "env \<Rightarrow> conn \<Rightarrow> bool \<Rightarrow> world \<Rightarrow> exn option \<times> world" where
  "release e (SqliteConn t) cursor_bound w = (None, emit [ConnClosed t] w)"
| "release e (MysqlConn t) cursor_bound w =
     (if is_connected e t then
        (if cursor_bound then (None, emit [CursorClosed t, ConnClosed t] w)
         else (Some UnboundLocalError, w))
      else (Some OperationalError, w))"

text \<open>An exception raised in \<^verbatim>\<open>finally\<close> replaces the outcome of the \<^verbatim>\<open>try\<close>.\<close>

fun with_finally :: "exn + 'a \<Rightarrow> exn option \<Rightarrow> exn + 'a" where
  "with_finally r None = r"
| "with_finally r (Some x) = Inl x"

text \<open>\<^verbatim>\<open>SELECT session_data FROM game_sessions WHERE player_id = %s\<close>, then
  \<^verbatim>\<open>fetchone()\<close>. Keys are compared as the strings they are; the collation of
  the column is not modelled.\<close>

definition fetchone :: "row list \<Rightarrow> string \<Rightarrow> row option" where
  "fetchone tbl pid = find (\<lambda>r. col_player_id r = pid) tbl"

text \<open>The body of the \<^verbatim>\<open>try\<close> block of \<^verbatim>\<open>get_session\<close>.\<close>

definition get_session_try :: "env \<Rightarrow> conn \<Rightarrow> string \<Rightarrow> world \<Rightarrow> pyval \<times> world" where
  "get_session_try e c pid w =
     (if execute_raises e c
      then (PNone, logmsg ERROR (''Failed to get session for player '' @ pid) w)
      else
        (case fetchone (table w) pid of
           None \<Rightarrow> (PNone, w)
         | Some r \<Rightarrow>
             (case col_session_data r of
                None \<Rightarrow> (PNone, w)
              | Some session_data \<Rightarrow>
                  if session_data = [] then (PNone, w)
                  else
                    (case json_loads e session_data of
                       None \<Rightarrow> (PNone, logmsg ERROR (''Failed to get session for player '' @ pid) w)
                     | Some v \<Rightarrow> (v, w)))))"

definition get_session :: "env \<Rightarrow> world \<Rightarrow> string \<Rightarrow> (exn + pyval) \<times> world" where
  "get_session e w pid =
     (case get_db_connection e w of
        (None, w1) \<Rightarrow> (Inr PNone, w1)
      | (Some c, w1) \<Rightarrow>
          (case get_session_try e c pid w1 of
             (v, w2) \<Rightarrow>
               (case release e c True w2 of
                  (x, w3) \<Rightarrow> (with_finally (Inr v) x, w3))))"

text \<open>
  The upsert \<^verbatim>\<open>INSERT ... ON DUPLICATE KEY UPDATE session_data = VALUES(session_data)\<close>
  as it takes effect at commit: a new key is inserted with the current timestamp; an
  existing row gets the new blob, and its timestamp column is refreshed when the blob
  changes. The text is stored as given; a statement that the backend rejects (such as
  a blob beyond the size of the column) is a failing \<^verbatim>\<open>execute\<close>.
\<close>

fun upsert :: "nat \<Rightarrow> string \<Rightarrow> string \<Rightarrow> row list \<Rightarrow> row list" where
  "upsert now pid s [] =
     [\<lparr>col_player_id = pid, col_session_data = Some s, col_last_modified = now\<rparr>]"
| "upsert now pid s (r # tbl) =
     (if col_player_id r = pid then
        (if col_session_data r = Some s then r # tbl
         else r\<lparr>col_session_data := Some s, col_last_modified := now\<rparr> # tbl)
      else r # upsert now pid s tbl)"

text \<open>The \<^verbatim>\<open>except\<close> and \<^verbatim>\<open>finally\<close> blocks of \<^verbatim>\<open>save_session\<close>.\<close>

definition save_failed ::
  "env \<Rightarrow> conn \<Rightarrow> bool \<Rightarrow> string \<Rightarrow> world \<Rightarrow> (exn + unit) \<times> world" where
  "save_failed e c cursor_bound pid w =
     (case release e c cursor_bound
             (logmsg ERROR (''Failed to save session for player '' @ pid) w) of
        (x, w') \<Rightarrow> (with_finally (Inr ()) x, w'))"

text \<open>
  \<^verbatim>\<open>save_session\<close>. The second component of the result is the caller's dict after
  the call: the function stamps it in place. The statement takes effect in the table
  at the commit; the two sinks are handed the stamped dict after it.
\<close>

definition save_session ::
  "env \<Rightarrow> world \<Rightarrow> string \<Rightarrow> pydict \<Rightarrow> (exn + unit) \<times> pydict \<times> world" where
  "save_session e w pid session_data =
     (case get_db_connection e w of
        (None, w1) \<Rightarrow> (Inr (), session_data, w1)
      | (Some c, w1) \<Rightarrow>
          (let doc = dict_set session_data ''last_modified'' (PNum (time_time e (conn_no c))) in
           case json_dumps e (PDict doc) of
             None \<Rightarrow>
               (case save_failed e c False pid w1 of (r, w2) \<Rightarrow> (r, doc, w2))
           | Some session_str \<Rightarrow>
               if execute_raises e c \<or> commit_fails e (conn_no c) then
                 (case save_failed e c True pid w1 of (r, w2) \<Rightarrow> (r, doc, w2))
               else
                 (case release e c True
                         (emit [Committed pid session_str,
                                WsSend pid (PDict [(''type'', PStr ''full_state''),
                                                   (''data'', PDict doc)]),
                                LiveUpdate pid (PDict doc)]
                            (w1\<lparr>table := upsert (current_timestamp e (conn_no c)) pid
                                             session_str (table w1)\<rparr>)) of
                    (x, w2) \<Rightarrow> (with_finally (Inr ()) x, doc, w2))))"

definition create_or_get_session :: "env \<Rightarrow> world \<Rightarrow> string \<Rightarrow> (exn + pyval) \<times> world" where
  "create_or_get_session e w pid =
     (case get_session e w pid of
        (Inl x, w1) \<Rightarrow> (Inl x, w1)
      | (Inr session, w1) \<Rightarrow>
          if session = PNone then
            (case save_session e w1 pid [] of
               (Inl x, session', w2) \<Rightarrow> (Inl x, w2)
             | (Inr u, session', w2) \<Rightarrow> (Inr (PDict session'), w2))
          else (Inr session, w1))"

text \<open>The list comprehension of \<^verbatim>\<open>get_last_n_inputs\<close>:
  \<^verbatim>\<open>[item["content"] for item in history if item.get("role") == "user"]\<close>.\<close>

fun user_contents :: "pyval list \<Rightarrow> exn + pyval list" where
  "user_contents [] = Inr []"
| "user_contents (item # rest) =
     (case item of
        PDict d \<Rightarrow>
          (if map_of d ''role'' = Some (PStr ''user'') then
             (case map_of d ''content'' of
                None \<Rightarrow> Inl KeyError
              | Some c \<Rightarrow>
                  (case user_contents rest of
                     Inl x \<Rightarrow> Inl x
                   | Inr cs \<Rightarrow> Inr (c # cs)))
           else user_contents rest)
      | _ \<Rightarrow> Inl AttributeError)"

definition get_last_n_inputs ::
  "env \<Rightarrow> world \<Rightarrow> string \<Rightarrow> int \<Rightarrow> (exn + pyval list) \<times> world" where
  "get_last_n_inputs e w pid n =
     (case get_session e w pid of
        (Inl x, w1) \<Rightarrow> (Inl x, w1)
      | (Inr session, w1) \<Rightarrow>
          if truthy session then
            (case session of
               PDict d \<Rightarrow>
                 (case py_iter (dict_get d ''internal_history'' (PList [])) of
                    Inl x \<Rightarrow> (Inl x, w1)
                  | Inr history \<Rightarrow>
                      (case user_contents history of
                         Inl x \<Rightarrow> (Inl x, w1)
                       | Inr cs \<Rightarrow> (Inr (slice_from (- n) cs), w1)))
             | _ \<Rightarrow> (Inl AttributeError, w1))
          else (Inr [], w1))"

text \<open>\<^verbatim>\<open>SELECT player_id, session_data FROM game_sessions ORDER BY last_modified
  DESC LIMIT %s\<close>; rows with equal timestamps come in an order the backend chooses,
  here the later row of the table first.\<close>

definition fetchall_recent :: "row list \<Rightarrow> nat \<Rightarrow> row list" where
  "fetchall_recent tbl limit = take limit (rev (sort_key col_last_modified tbl))"

text \<open>\<^verbatim>\<open>str(row['session_data'])\<close>: the text, or \<^verbatim>\<open>'None'\<close> for NULL.\<close>

fun str_of_column :: "string option \<Rightarrow> string" where
  "str_of_column None = ''None''"
| "str_of_column (Some s) = s"

definition display_name :: "string \<Rightarrow> string" where
  "display_name pid = (if length pid > 2 then hd pid # ''...'' @ [last pid] else pid)"

text \<open>The \<^verbatim>\<open>for row in rows\<close> loop of \<^verbatim>\<open>get_most_recent_sessions\<close>; the first
  row that raises ends it.\<close>

fun summaries :: "env \<Rightarrow> row list \<Rightarrow> exn + pyval list" where
  "summaries e [] = Inr []"
| "summaries e (r # rows) =
     (case json_loads e (str_of_column (col_session_data r)) of
        None \<Rightarrow> Inl JSONDecodeError
      | Some session_data \<Rightarrow>
          (case session_data of
             PDict d \<Rightarrow>
               (case summaries e rows of
                  Inl x \<Rightarrow> Inl x
                | Inr results \<Rightarrow>
                    Inr (PDict [(''player_id'', PStr (encrypt_player_id e (col_player_id r))),
                                (''display_name'', PStr (display_name (col_player_id r))),
                                (''last_modified'', dict_get d ''last_modified'' (PNum 0))]
                         # results))
           | _ \<Rightarrow> Inl AttributeError))"

text \<open>\<^verbatim>\<open>get_most_recent_sessions\<close>. MySQL rejects a negative \<^verbatim>\<open>LIMIT\<close>.\<close>

definition get_most_recent_sessions ::
  "env \<Rightarrow> world \<Rightarrow> int \<Rightarrow> (exn + pyval list) \<times> world" where
  "get_most_recent_sessions e w limit =
     (case get_db_connection e w of
        (None, w1) \<Rightarrow> (Inr [], w1)
      | (Some c, w1) \<Rightarrow>
          (case (if execute_raises e c \<or> limit < 0
                 then (Inr [], logmsg ERROR ''Failed to get most recent sessions'' w1)
                 else
                   (case summaries e (fetchall_recent (table w1) (nat limit)) of
                      Inl x \<Rightarrow> (Inr [], logmsg ERROR ''Failed to get most recent sessions'' w1)
                    | Inr results \<Rightarrow> (Inr results, w1))) of
             (r, w2) \<Rightarrow>
               (case release e c True w2 of
                  (x, w3) \<Rightarrow> (with_finally r x, w3))))"

definition clear_session :: "env \<Rightarrow> world \<Rightarrow> string \<Rightarrow> (exn + unit) \<times> world" where
  "clear_session e w pid =
     (case save_session e w pid [] of
        (Inl x, d, w1) \<Rightarrow> (Inl x, w1)
      | (Inr u, d, w1) \<Rightarrow>
          (Inr (), logmsg INFO (''Session for player '' @ pid @ '' has been cleared.'') w1))"

text \<open>\<^verbatim>\<open>flag_player_for_punishment\<close>. Item assignment on a truthy value that is not
  a dict raises TypeError.\<close>

definition flag_player_for_punishment ::
  "env \<Rightarrow> world \<Rightarrow> string \<Rightarrow> string \<Rightarrow> string \<Rightarrow> (exn + unit) \<times> world" where
  "flag_player_for_punishment e w pid lvl reason =
     (case get_session e w pid of
        (Inl x, w1) \<Rightarrow> (Inl x, w1)
      | (Inr session, w1) \<Rightarrow>
          if truthy session then
            (case session of
               PDict d \<Rightarrow>
                 (case save_session e w1 pid
                         (dict_set d ''pending_punishment''
                            (PDict [(''level'', PStr lvl), (''reason'', PStr reason)])) of
                    (Inl x, d', w2) \<Rightarrow> (Inl x, w2)
                  | (Inr u, d', w2) \<Rightarrow>
                      (Inr (), logmsg INFO (''Player '' @ pid @ '' flagged for '' @ lvl
                                   @ '' punishment. Reason: '' @ reason) w2))
             | _ \<Rightarrow> (Inl TypeError, w1))
          else
            (Inr (), logmsg WARNING
                       (''Attempted to flag non-existent session for player '' @ pid) w1))"

section \<open>Concrete environments\<close>

text \<open>
  Closed instances need a codec. \<open>sample_blobs\<close> pairs texts with the values that
  \<^verbatim>\<open>json.loads\<close> gives for them, and \<^verbatim>\<open>json.dumps(..., ensure_ascii=False)\<close> gives
  back exactly these texts; every other text stands for one that fails to decode
  (such as \<^verbatim>\<open>not json\<close>), every other value for one that fails to encode (such as
  a dict holding bytes).
\<close>

definition history_doc :: pydict where
  "history_doc =
     [(''internal_history'',
       PList [PDict [(''role'', PStr ''user''), (''content'', PStr ''a'')],
              PDict [(''role'', PStr ''bot''), (''content'', PStr ''b'')],
              PDict [(''role'', PStr ''user''), (''content'', PStr ''c'')]])]"

definition history_blob :: string where
  \<open>history_blob = ''{"internal_history": [{"role": "user", "content": "a"}, {"role": "bot", "content": "b"}, {"role": "user", "content": "c"}]}''\<close>

definition stamped_doc :: pydict where
  "stamped_doc = [(''last_modified'', PNum 1700000000)]"

definition stamped_blob :: string where
  \<open>stamped_blob = ''{"last_modified": 1700000000.0}''\<close>

definition player_doc :: pydict where
  "player_doc = [(''hp'', PNum 3), (''last_modified'', PNum 1700000000)]"

definition player_blob :: string where
  \<open>player_blob = ''{"hp": 3, "last_modified": 1700000000.0}''\<close>

definition sample_blobs :: "(string \<times> pyval) list" where
  "sample_blobs =
     [(''{}'', PDict []),
      (stamped_blob, PDict stamped_doc),
      (player_blob, PDict player_doc),
      (history_blob, PDict history_doc)]"

definition sample_loads :: "string \<Rightarrow> pyval option" where
  "sample_loads s = map_of sample_blobs s"

definition sample_dumps :: "pyval \<Rightarrow> string option" where
  "sample_dumps v = map_of (map (\<lambda>p. (snd p, fst p)) sample_blobs) v"

definition never :: "nat \<Rightarrow> bool" where
  "never t = False"

definition always :: "nat \<Rightarrow> bool" where
  "always t = True"

definition sample_clock :: "nat \<Rightarrow> real" where
  "sample_clock t = 1700000000"

definition sample_timestamp :: "nat \<Rightarrow> nat" where
  "sample_timestamp t = 1700000000 + t"

definition sample_encrypt :: "string \<Rightarrow> string" where
  "sample_encrypt pid = ''enc:'' @ pid"

text \<open>A MySQL deployment in which every backend call succeeds.\<close>

definition mysql_env :: env where
  "mysql_env =
     \<lparr>scheme = ''mysql'', sqlite_connect_fails = never, pool_borrow_fails = never,
      execute_fails = never, commit_fails = never, is_connected = always,
      time_time = sample_clock, current_timestamp = sample_timestamp,
      json_dumps = sample_dumps, json_loads = sample_loads,
      encrypt_player_id = sample_encrypt\<rparr>"

text \<open>The same with a pool that rejects every borrow, with a commit that always
  fails, and with an unrecognised scheme.\<close>

definition rejecting_env :: env where
  "rejecting_env = mysql_env\<lparr>pool_borrow_fails := always\<rparr>"

definition commit_failing_env :: env where
  "commit_failing_env = mysql_env\<lparr>commit_fails := always\<rparr>"

definition postgres_env :: env where
  "postgres_env = mysql_env\<lparr>scheme := ''postgres''\<rparr>"

text \<open>The SQLite deployment that \<^verbatim>\<open>get_db_connection\<close> also serves, and a MySQL
  deployment whose connection is lost while the statement runs.\<close>

definition sqlite_env :: env where
  "sqlite_env = mysql_env\<lparr>scheme := ''sqlite''\<rparr>"

definition lost_env :: env where
  "lost_env = mysql_env\<lparr>execute_fails := always, is_connected := never\<rparr>"

text \<open>Worlds: an empty table behind an initialised pool; the same with the pool
  never initialised; and tables with one or two rows.\<close>

definition world0 :: world where
  "world0 = \<lparr>db_pool = True, table = [], log = [], trace = [], calls = 0\<rparr>"

definition world_no_pool :: world where
  "world_no_pool = world0\<lparr>db_pool := False\<rparr>"

definition garbage_row :: row where
  "garbage_row =
     \<lparr>col_player_id = ''bob'', col_session_data = Some ''not json'', col_last_modified = 20\<rparr>"

definition stamped_row :: row where
  "stamped_row =
     \<lparr>col_player_id = ''alice'', col_session_data = Some stamped_blob, col_last_modified = 10\<rparr>"

definition history_row :: row where
  "history_row =
     \<lparr>col_player_id = ''carol'', col_session_data = Some history_blob, col_last_modified = 30\<rparr>"

definition empty_doc_row :: row where
  "empty_doc_row =
     \<lparr>col_player_id = ''dave'', col_session_data = Some ''{}'', col_last_modified = 40\<rparr>"

definition world_rows :: world where
  "world_rows = world0\<lparr>table := [stamped_row, garbage_row, history_row, empty_doc_row]\<rparr>"

definition world_decodable :: world where
  "world_decodable = world0\<lparr>table := [stamped_row, history_row]\<rparr>"

text \<open>The events that write or broadcast.\<close>

fun is_commit :: "event \<Rightarrow> bool" where
  "is_commit (Committed p s) = True"
| "is_commit ev = False"

fun is_dispatch :: "event \<Rightarrow> bool" where
  "is_dispatch (WsSend p v) = True"
| "is_dispatch (LiveUpdate p v) = True"
| "is_dispatch ev = False"

text \<open>The writes and broadcasts, in order, among the effects so far.\<close>

definition effects :: "world \<Rightarrow> event list" where
  "effects w = filter (\<lambda>ev. is_commit ev \<or> is_dispatch ev) (trace w)"

fun is_ws :: "event \<Rightarrow> bool" where
  "is_ws (WsSend p v) = True"
| "is_ws ev = False"

fun is_live :: "event \<Rightarrow> bool" where
  "is_live (LiveUpdate p v) = True"
| "is_live ev = False"

text \<open>The write and broadcast effects that one \<^verbatim>\<open>save_session\<close> call adds.\<close>

definition save_effects :: "env \<Rightarrow> world \<Rightarrow> string \<Rightarrow> pydict \<Rightarrow> event list" where
  "save_effects e w pid d =
     drop (length (effects w)) (effects (snd (snd (save_session e w pid d))))"

section \<open>Evaluation of the concrete environments\<close>

lemmas sample_defs =
  mysql_env_def rejecting_env_def commit_failing_env_def postgres_env_def sqlite_env_def
  lost_env_def world0_def
  world_no_pool_def garbage_row_def stamped_row_def history_row_def empty_doc_row_def
  world_rows_def world_decodable_def never_def always_def sample_clock_def
  sample_timestamp_def sample_encrypt_def sample_loads_def sample_dumps_def
  sample_blobs_def history_doc_def history_blob_def stamped_doc_def stamped_blob_def
  player_doc_def player_blob_def

lemmas op_defs =
  get_db_connection_def get_session_def get_session_try_def fetchone_def save_session_def
  save_failed_def logmsg_def emit_def dict_get_def

section \<open>Frame properties\<close>

lemma get_db_connection_frame:
  "get_db_connection e w = (r, w1) \<Longrightarrow>
     table w1 = table w \<and> trace w1 = trace w \<and> db_pool w1 = db_pool w \<and> calls w1 = Suc (calls w)"
  by (auto simp: get_db_connection_def logmsg_def Let_def split: if_splits)

lemma get_db_connection_log_ok:
  "get_db_connection e w = (Some c, w1) \<Longrightarrow> log w1 = log w"
  by (auto simp: get_db_connection_def logmsg_def Let_def split: if_splits)

lemma get_db_connection_number:
  "get_db_connection e w = (Some c, w1) \<Longrightarrow> conn_no c = calls w"
  by (auto simp: get_db_connection_def logmsg_def Let_def split: if_splits)

lemma get_db_connection_sqlite:
  "scheme e = ''sqlite'' \<Longrightarrow> get_db_connection e w = (Some c, w1) \<Longrightarrow> c = SqliteConn (calls w)"
  by (auto simp: get_db_connection_def logmsg_def Let_def split: if_splits)

lemma release_frame:
  "release e c b w = (x, w1) \<Longrightarrow>
     table w1 = table w \<and> log w1 = log w \<and> effects w1 = effects w \<and> calls w1 = calls w \<and> db_pool w1 = db_pool w"
  by (cases c) (auto simp: emit_def effects_def split: if_splits)

lemma release_snd:
  "table (snd (release e c b w)) = table w \<and> log (snd (release e c b w)) = log w \<and>
   effects (snd (release e c b w)) = effects w \<and> calls (snd (release e c b w)) = calls w"
  using release_frame [of e c b w] by (cases "release e c b w") simp

lemma release_connected:
  "is_connected e (conn_no c) = True \<Longrightarrow> fst (release e c True w) = None"
  by (cases c) auto

lemma release_sqlite: "fst (release e (SqliteConn t) b w) = None"
  by simp

lemma release_outcome:
  "fst (release e c True w) = None \<or> fst (release e c True w) = Some OperationalError"
  by (cases c) auto

lemma get_session_try_frame:
  "get_session_try e c pid w = (v, w1) \<Longrightarrow>
     table w1 = table w \<and> trace w1 = trace w \<and> calls w1 = calls w \<and> db_pool w1 = db_pool w"
  by (auto simp: get_session_try_def logmsg_def split: if_splits option.splits)

lemma get_session_frame:
  "get_session e w pid = (r, w') \<Longrightarrow> table w' = table w \<and> effects w' = effects w"
  apply (simp add: get_session_def split: prod.splits option.splits)
   apply (auto dest!: get_db_connection_frame get_session_try_frame release_frame simp: effects_def)
  done

lemma get_session_calls: "calls (snd (get_session e w pid)) = Suc (calls w)"
  apply (cases "get_session e w pid")
  apply (simp add: get_session_def split: prod.splits option.splits)
   apply (auto dest!: get_db_connection_frame get_session_try_frame release_frame)
  done

lemma get_session_conn:
  assumes "get_db_connection e w = (Some c, w1)"
  shows "get_session e w pid =
           (with_finally (Inr (fst (get_session_try e c pid w1)))
              (fst (release e c True (snd (get_session_try e c pid w1)))),
            snd (release e c True (snd (get_session_try e c pid w1))))"
proof -
  obtain v w2 where tr: "get_session_try e c pid w1 = (v, w2)"
    by (cases "get_session_try e c pid w1")
  obtain x w3 where rl: "release e c True w2 = (x, w3)"
    by (cases "release e c True w2")
  show ?thesis using assms tr rl by (simp add: get_session_def)
qed

lemma get_session_conn_ok:
  assumes "get_db_connection e w = (Some c, w1)" and "is_connected e (conn_no c) = True"
  shows "fst (get_session e w pid) = Inr (fst (get_session_try e c pid w1))"
  using get_session_conn [OF assms(1)] release_connected [OF assms(2)] by simp

lemma get_session_conn_log:
  assumes "get_db_connection e w = (Some c, w1)"
  shows "log (snd (get_session e w pid)) = log (snd (get_session_try e c pid w1))"
  using get_session_conn [OF assms(1)] by (simp add: release_snd)

lemma get_session_no_conn:
  "get_db_connection e w = (None, w1) \<Longrightarrow> get_session e w pid = (Inr PNone, w1)"
  by (simp add: get_session_def)

lemma get_session_try_absent:
  "fetchone (table w) pid = None \<Longrightarrow> fst (get_session_try e c pid w) = PNone"
  by (simp add: get_session_try_def)

text \<open>The only exception that leaves \<^verbatim>\<open>get_session\<close> is the one of a lost
  connection, and none does when the handle is still connected at its release.\<close>

lemma get_session_outcome:
  "(\<exists>v. fst (get_session e w pid) = Inr v) \<or> fst (get_session e w pid) = Inl OperationalError"
proof (cases "get_db_connection e w")
  case (Pair r w1)
  show ?thesis
  proof (cases r)
    case None
    with Pair show ?thesis by (simp add: get_session_no_conn)
  next
    case (Some c)
    then show ?thesis
      using Pair get_session_conn [of e w c w1 pid]
        release_outcome [of e c "snd (get_session_try e c pid w1)"]
      by auto
  qed
qed

lemma get_session_returns:
  assumes "is_connected e (calls w) = True"
  shows "\<exists>v. fst (get_session e w pid) = Inr v"
proof (cases "get_db_connection e w")
  case (Pair r w1)
  show ?thesis
  proof (cases r)
    case None
    with Pair show ?thesis by (simp add: get_session_no_conn)
  next
    case (Some c)
    then have "is_connected e (conn_no c) = True"
      using Pair assms by (simp add: get_db_connection_number)
    then show ?thesis using Pair Some by (simp add: get_session_conn_ok)
  qed
qed

lemma get_session_absent_outcome:
  assumes "fetchone (table w) pid = None"
  shows "fst (get_session e w pid) = Inr PNone \<or> fst (get_session e w pid) = Inl OperationalError"
proof (cases "get_db_connection e w")
  case (Pair r w1)
  show ?thesis
  proof (cases r)
    case None
    with Pair show ?thesis by (simp add: get_session_no_conn)
  next
    case (Some c)
    from Pair have t: "table w1 = table w" by (simp add: get_db_connection_frame)
    have v: "fst (get_session_try e c pid w1) = PNone"
      using get_session_try_absent [of w1 pid e c] assms t by simp
    show ?thesis
      using Pair Some v get_session_conn [of e w c w1 pid]
        release_outcome [of e c "snd (get_session_try e c pid w1)"]
      by auto
  qed
qed

lemma get_session_absent:
  assumes "fetchone (table w) pid = None" and "is_connected e (calls w) = True"
  shows "fst (get_session e w pid) = Inr PNone"
  using get_session_absent_outcome [OF assms(1), of e] get_session_returns [OF assms(2), of pid]
  by auto

lemma get_session_sqlite:
  assumes "scheme e = ''sqlite''"
  shows "fst (get_session e w pid) = Inr PNone"
proof (cases "get_db_connection e w")
  case (Pair r w1)
  show ?thesis
  proof (cases r)
    case None
    with Pair show ?thesis by (simp add: get_session_no_conn)
  next
    case (Some c)
    then have c: "c = SqliteConn (calls w)"
      using Pair assms by (simp add: get_db_connection_sqlite)
    show ?thesis
      using Pair Some get_session_conn [of e w c w1 pid]
      by (simp add: c get_session_try_def)
  qed
qed

lemma flag_falsy:
  assumes "fst (get_session e w pid) = Inr v" "\<not> truthy v"
  shows "flag_player_for_punishment e w pid lvl reason =
           (Inr (), logmsg WARNING (''Attempted to flag non-existent session for player '' @ pid)
                      (snd (get_session e w pid)))"
  using assms by (cases "get_session e w pid") (simp add: flag_player_for_punishment_def)

lemma flag_raises:
  assumes "fst (get_session e w pid) = Inl x"
  shows "flag_player_for_punishment e w pid lvl reason = (Inl x, snd (get_session e w pid))"
  using assms by (cases "get_session e w pid") (simp add: flag_player_for_punishment_def)

lemma logmsg_frame: "table (logmsg l m w) = table w \<and> effects (logmsg l m w) = effects w \<and> log (logmsg l m w) = log w @ [(l, m)]"
  by (simp add: logmsg_def effects_def)

lemma save_session_no_conn:
  "get_db_connection e w = (None, w1) \<Longrightarrow> save_session e w pid d = (Inr (), d, w1)"
  by (simp add: save_session_def)

lemma save_session_doc:
  assumes "get_db_connection e w = (Some c, w1)"
  shows "fst (snd (save_session e w pid d))
           = dict_set d ''last_modified'' (PNum (time_time e (conn_no c)))"
  using assms
  by (simp add: save_session_def Let_def split: option.splits prod.splits)

lemma save_session_success:
  assumes "get_db_connection e w = (Some c, w1)"
    and "json_dumps e (PDict (dict_set d ''last_modified'' (PNum (time_time e (conn_no c))))) = Some s"
    and "execute_raises e c = False" and "commit_fails e (conn_no c) = False"
  shows "save_session e w pid d =
           (with_finally (Inr ())
              (fst (release e c True
                   (emit [Committed pid s,
                          WsSend pid (PDict [(''type'', PStr ''full_state''),
                                             (''data'', PDict (dict_set d ''last_modified''
                                                                 (PNum (time_time e (conn_no c)))))]),
                          LiveUpdate pid (PDict (dict_set d ''last_modified''
                                                   (PNum (time_time e (conn_no c)))))]
                      (w1\<lparr>table := upsert (current_timestamp e (conn_no c)) pid s (table w1)\<rparr>)))),
            dict_set d ''last_modified'' (PNum (time_time e (conn_no c))),
            snd (release e c True
                   (emit [Committed pid s,
                          WsSend pid (PDict [(''type'', PStr ''full_state''),
                                             (''data'', PDict (dict_set d ''last_modified''
                                                                 (PNum (time_time e (conn_no c)))))]),
                          LiveUpdate pid (PDict (dict_set d ''last_modified''
                                                   (PNum (time_time e (conn_no c)))))]
                      (w1\<lparr>table := upsert (current_timestamp e (conn_no c)) pid s (table w1)\<rparr>))))"
proof -
  let ?w2 = "emit [Committed pid s,
                          WsSend pid (PDict [(''type'', PStr ''full_state''),
                                             (''data'', PDict (dict_set d ''last_modified''
                                                                 (PNum (time_time e (conn_no c)))))]),
                          LiveUpdate pid (PDict (dict_set d ''last_modified''
                                                   (PNum (time_time e (conn_no c)))))]
                      (w1\<lparr>table := upsert (current_timestamp e (conn_no c)) pid s (table w1)\<rparr>)"
  obtain x w3 where rl: "release e c True ?w2 = (x, w3)" by (cases "release e c True ?w2")
  show ?thesis using assms rl by (simp add: save_session_def Let_def)
qed

lemma save_failed_bound:
  assumes "is_connected e (conn_no c) = True"
  shows "fst (save_failed e c True pid w) = Inr ()"
proof -
  let ?w = "logmsg ERROR (''Failed to save session for player '' @ pid) w"
  obtain x w' where rl: "release e c True ?w = (x, w')" by (cases "release e c True ?w")
  have "x = None" using release_connected [OF assms, of ?w] rl by simp
  then show ?thesis using rl by (simp add: save_failed_def)
qed

lemma save_failed_frame:
  "table (snd (save_failed e c b pid w)) = table w \<and>
   effects (snd (save_failed e c b pid w)) = effects w"
proof -
  let ?w = "logmsg ERROR (''Failed to save session for player '' @ pid) w"
  obtain x w' where rl: "release e c b ?w = (x, w')" by (cases "release e c b ?w")
  then have "table w' = table ?w \<and> effects w' = effects ?w" by (simp add: release_frame)
  then show ?thesis using rl by (simp add: save_failed_def logmsg_frame)
qed

lemma save_failed_sqlite: "fst (save_failed e (SqliteConn t) b pid w) = Inr ()"
  by (simp add: save_failed_def)

lemma save_failed_effects: "effects (snd (save_failed e c b pid w)) = effects w"
  by (simp add: save_failed_frame)

lemma map_of_dict_set: "map_of (dict_set d k v) = (map_of d)(k \<mapsto> v)"
  by (induction d k v rule: dict_set.induct) (auto simp: fun_eq_iff)

lemma fetchone_upsert_same:
  "\<exists>r. fetchone (upsert now pid s tbl) pid = Some r \<and> col_session_data r = Some s"
  by (induction tbl) (auto simp: fetchone_def)

lemma fetchone_upsert_other:
  "pid' \<noteq> pid \<Longrightarrow> fetchone (upsert now pid s tbl) pid' = fetchone tbl pid'"
  by (induction tbl) (auto simp: fetchone_def)

lemma emit_frame: "table (emit evs w) = table w \<and> log (emit evs w) = log w"
  by (simp add: emit_def)

lemma effects_emit: "effects (emit evs w) = effects w @ filter (\<lambda>ev. is_commit ev \<or> is_dispatch ev) evs"
  by (simp add: effects_def emit_def)

lemma effects_table_update: "effects (w\<lparr>table := t\<rparr>) = effects w"
  by (simp add: effects_def)

lemma release_effects: "effects (snd (release e c b w)) = effects w"
  using release_frame [of e c b w] by (cases "release e c b w") simp

text \<open>On the SQLite handle every save is dropped: the statement is rejected, the
  table stays as it was, and the call returns normally.\<close>

lemma save_session_sqlite:
  assumes "scheme e = ''sqlite''"
  shows "fst (save_session e w pid d) = Inr () \<and>
         table (snd (snd (save_session e w pid d))) = table w"
proof (cases "get_db_connection e w")
  case (Pair r w1)
  have t: "table w1 = table w" using Pair by (simp add: get_db_connection_frame)
  show ?thesis
  proof (cases r)
    case None
    with Pair t show ?thesis by (simp add: save_session_no_conn)
  next
    case (Some c)
    then have c: "c = SqliteConn (calls w)"
      using Pair assms by (simp add: get_db_connection_sqlite)
    have p: "get_db_connection e w = (Some (SqliteConn (calls w)), w1)"
      using Pair Some c by simp
    have f: "fst (save_failed e (SqliteConn (calls w)) b pid w1) = Inr () \<and>
             table (snd (save_failed e (SqliteConn (calls w)) b pid w1)) = table w" for b
      using t by (simp add: save_failed_sqlite save_failed_frame)
    show ?thesis
    proof (cases "json_dumps e (PDict (dict_set d ''last_modified''
                                   (PNum (time_time e (calls w)))))")
      case None
      then show ?thesis
        using p f [of False]
        by (cases "save_failed e (SqliteConn (calls w)) False pid w1")
           (simp add: save_session_def)
    next
      case (Some s)
      then show ?thesis
        using p f [of True]
        by (cases "save_failed e (SqliteConn (calls w)) True pid w1")
           (simp add: save_session_def)
    qed
  qed
qed

lemma save_session_effects:
  "effects (snd (snd (save_session e w pid d))) = effects w @
     (case fst (get_db_connection e w) of
        None \<Rightarrow> []
      | Some c \<Rightarrow>
          (case json_dumps e (PDict (dict_set d ''last_modified'' (PNum (time_time e (conn_no c))))) of
             None \<Rightarrow> []
           | Some s \<Rightarrow>
               if execute_raises e c \<or> commit_fails e (conn_no c) then []
               else [Committed pid s,
                     WsSend pid (PDict [(''type'', PStr ''full_state''),
                                        (''data'', PDict (dict_set d ''last_modified''
                                                            (PNum (time_time e (conn_no c)))))]),
                     LiveUpdate pid (PDict (dict_set d ''last_modified''
                                              (PNum (time_time e (conn_no c)))))]))"
proof (cases "get_db_connection e w")
  case (Pair x w1)
  have e1: "effects w1 = effects w"
    using get_db_connection_frame [OF Pair] by (simp add: effects_def)
  show ?thesis
  proof (cases x)
    case None
    then show ?thesis using Pair e1 by (simp add: save_session_def)
  next
    case (Some c)
    let ?doc = "dict_set d ''last_modified'' (PNum (time_time e (conn_no c)))"
    show ?thesis
    proof (cases "json_dumps e (PDict ?doc)")
      case None
      then show ?thesis using Pair \<open>x = Some c\<close> e1 save_failed_effects [of e c False pid w1]
        by (auto simp: save_session_def split: prod.splits)
    next
      case (Some s)
      note dumps = Some
      show ?thesis
      proof (cases "execute_raises e c \<or> commit_fails e (conn_no c)")
        case True
        then show ?thesis
          using Pair \<open>x = Some c\<close> dumps e1 save_failed_effects [of e c True pid w1]
          by (auto simp: save_session_def split: prod.splits)
      next
        case False
        then have ok: "execute_raises e c = False" "commit_fails e (conn_no c) = False" by simp_all
        have p: "get_db_connection e w = (Some c, w1)" using Pair \<open>x = Some c\<close> by simp
        show ?thesis
          using save_session_success [OF p dumps ok, of pid] p dumps ok e1
          by (simp add: release_effects effects_emit effects_table_update)
      qed
    qed
  qed
qed

section \<open>The last inputs of a player\<close>

text \<open>The slice \<^verbatim>\<open>[-n:]\<close> keeps the last \<open>n\<close> items only for a positive \<open>n\<close>.\<close>

lemma slice_from_zero: "slice_from (- 0) xs = xs"
  by (simp add: slice_from_def)

lemma slice_from_last: "0 < n \<Longrightarrow> slice_from (- n) xs = drop (length xs - nat n) xs"
  by (auto simp: slice_from_def Let_def max_def nat_diff_distrib')

lemma slice_from_at_most: "0 < n \<Longrightarrow> length (slice_from (- n) xs) \<le> nat n"
  by (simp add: slice_from_last)

lemma get_last_n_inputs_at_most:
  assumes "0 < n" and "fst (get_last_n_inputs e w pid n) = Inr cs"
  shows "length cs \<le> nat n"
  using assms slice_from_at_most [OF assms(1)]
  by (auto simp: get_last_n_inputs_def split: prod.splits sum.splits if_splits pyval.splits)

text \<open>
  C4. \<^verbatim>\<open>get_last_n_inputs(player_id, n)\<close> is documented as giving the last \<open>n\<close>
  player inputs, that is at most \<open>n\<close> entries. The slice \<^verbatim>\<open>[-n:]\<close> is
  \<^verbatim>\<open>[0:]\<close> for \<open>n = 0\<close>: on the history user a, bot b, user c the call with
  \<open>n = 0\<close> returns both user inputs instead of none.
\<close>

theorem get_last_n_inputs_zero_returns_all:
  "fst (get_last_n_inputs mysql_env world_rows ''carol'' 0) = Inr [PStr ''a'', PStr ''c'']"
  by (simp add: get_last_n_inputs_def op_defs slice_from_def sample_defs)

section \<open>Exceptions leaving save_session\<close>

text \<open>
  C6. No exception is to leave \<^verbatim>\<open>save_session\<close>, whatever fails. When
  \<^verbatim>\<open>json.dumps\<close> raises (here on a dict that holds bytes) the \<^verbatim>\<open>except\<close> block
  logs it, but the \<^verbatim>\<open>finally\<close> block then reads \<^verbatim>\<open>cursor\<close>, which is assigned
  only after the serialisation: on a connected MySQL handle the call ends with
  UnboundLocalError.
\<close>

theorem save_session_serialization_failure_raises:
  "fst (save_session mysql_env world0 ''p1'' [(''x'', PBytes ''ab'')]) = Inl UnboundLocalError"
  by (simp add: op_defs sample_defs)

section \<open>Failures of the connection provider\<close>

text \<open>
  C7, as stated: the never-initialised pool, the rejected borrow and the unrecognised
  scheme are three distinguishable outcomes. They are not: in all three
  \<^verbatim>\<open>get_db_connection\<close> returns \<^verbatim>\<open>None\<close>.
\<close>

theorem acquire_failures_counterexample:
  "fst (get_db_connection mysql_env world_no_pool) = None \<and>
   fst (get_db_connection rejecting_env world0) = None \<and>
   fst (get_db_connection postgres_env world0) = None"
  by (simp add: get_db_connection_def logmsg_def sample_defs)

text \<open>
  C7, amended: for the MySQL scheme with a pool that was never initialised, for a
  borrow that the backend rejects, and for a scheme that is neither sqlite nor mysql,
  \<^verbatim>\<open>get_db_connection\<close> returns the same absent result, \<^verbatim>\<open>None\<close>; the three
  cases differ only in the error message that is logged.
\<close>

theorem acquire_failures_all_none:
  assumes "scheme e1 = ''mysql''" and "db_pool w1 = False"
    and "scheme e2 = ''mysql''" and "db_pool w2 = True" and "pool_borrow_fails e2 (calls w2) = True"
    and "scheme e3 \<noteq> ''sqlite''" and "scheme e3 \<noteq> ''mysql''"
  shows "fst (get_db_connection e1 w1) = None \<and>
         fst (get_db_connection e2 w2) = None \<and>
         fst (get_db_connection e3 w3) = None \<and>
         log (snd (get_db_connection e1 w1))
           = log w1 @ [(ERROR, ''MySQL pool is not initialized. Cannot get connection.'')] \<and>
         log (snd (get_db_connection e2 w2)) = log w2 @ [(ERROR, ''Database connection failed'')] \<and>
         log (snd (get_db_connection e3 w3))
           = log w3 @ [(ERROR, ''Unsupported database scheme: '' @ scheme e3)]"
  using assms by (simp add: get_db_connection_def logmsg_def Let_def)

theorem acquire_failures_all_none_witness:
  "fst (get_db_connection mysql_env world_no_pool) = None \<and>
   fst (get_db_connection rejecting_env world0) = None \<and>
   fst (get_db_connection postgres_env world_rows) = None \<and>
   log (snd (get_db_connection mysql_env world_no_pool))
     = [(ERROR, ''MySQL pool is not initialized. Cannot get connection.'')] \<and>
   log (snd (get_db_connection rejecting_env world0)) = [(ERROR, ''Database connection failed'')] \<and>
   log (snd (get_db_connection postgres_env world_rows))
     = [(ERROR, ''Unsupported database scheme: postgres'')]"
proof -
  have h1: "scheme mysql_env = ''mysql''" and h2: "db_pool world_no_pool = False"
    and h3: "scheme rejecting_env = ''mysql''" and h4: "db_pool world0 = True"
    and h5: "pool_borrow_fails rejecting_env (calls world0) = True"
    and h6: "scheme postgres_env \<noteq> ''sqlite''" and h7: "scheme postgres_env \<noteq> ''mysql''"
    by (simp_all add: sample_defs)
  have l: "log world_no_pool = []" "log world0 = []" "log world_rows = []"
    "scheme postgres_env = ''postgres''"
    by (simp_all add: sample_defs)
  show ?thesis
    using acquire_failures_all_none [OF h1 h2 h3 h4 h5 h6 h7, of world_rows] l by simp
qed

section \<open>Reading a session\<close>

text \<open>With the connection lost while the statement runs, the \<^verbatim>\<open>except\<close> block logs
  the failure and the \<^verbatim>\<open>finally\<close> block then raises out of \<^verbatim>\<open>get_session\<close>.\<close>

lemma get_session_lost_connection_raises:
  "fst (get_session lost_env world_rows ''zed'') = Inl OperationalError"
  by (simp add: op_defs sample_defs)

text \<open>
  C2, as stated: a row whose non-empty blob is not valid JSON gives a result that the
  caller can tell from the one for a missing row. In the code both calls return
  \<^verbatim>\<open>None\<close>.
\<close>

theorem get_session_decode_failure_counterexample:
  "fetchone (table world_rows) ''bob'' = Some garbage_row \<and>
   col_session_data garbage_row = Some ''not json'' \<and>
   json_loads mysql_env ''not json'' = None \<and>
   fetchone (table world_rows) ''zed'' = None \<and>
   fst (get_session mysql_env world_rows ''bob'') = Inr PNone \<and>
   fst (get_session mysql_env world_rows ''zed'') = Inr PNone"
  by (simp add: op_defs sample_defs)

text \<open>
  C2, amended: when the connection and the query succeed and the handle is still
  connected when it is released, \<^verbatim>\<open>get_session\<close> on a row whose non-empty blob
  fails to decode returns \<^verbatim>\<open>None\<close>, the same result as for a player without a
  row; the decode failure is reported only as an error in the log, which the missing
  row does not write.
\<close>

theorem get_session_decode_failure_is_absent:
  assumes "get_db_connection e w = (Some c, w1)" and "execute_raises e c = False"
    and "is_connected e (conn_no c) = True"
    and "fetchone (table w) pid = Some r" and "col_session_data r = Some s" and "s \<noteq> []"
    and "json_loads e s = None"
    and "fetchone (table w) pid' = None"
  shows "fst (get_session e w pid) = Inr PNone \<and>
         fst (get_session e w pid') = Inr PNone \<and>
         log (snd (get_session e w pid))
           = log w @ [(ERROR, ''Failed to get session for player '' @ pid)] \<and>
         log (snd (get_session e w pid')) = log w"
proof -
  have t: "table w1 = table w" and l: "log w1 = log w"
    using assms(1) by (simp_all add: get_db_connection_frame get_db_connection_log_ok)
  have a: "get_session_try e c pid w1
             = (PNone, logmsg ERROR (''Failed to get session for player '' @ pid) w1)"
    using assms t by (simp add: get_session_try_def)
  have b: "get_session_try e c pid' w1 = (PNone, w1)"
    using assms t by (simp add: get_session_try_def)
  show ?thesis
    using get_session_conn_ok [OF assms(1) assms(3)] get_session_conn_log [OF assms(1)] a b l
    by (simp add: logmsg_frame)
qed

theorem get_session_decode_failure_is_absent_witness:
  "fst (get_session mysql_env world_rows ''bob'') = Inr PNone \<and>
   fst (get_session mysql_env world_rows ''zed'') = Inr PNone \<and>
   log (snd (get_session mysql_env world_rows ''bob''))
     = [(ERROR, ''Failed to get session for player bob'')] \<and>
   log (snd (get_session mysql_env world_rows ''zed'')) = []"
proof -
  have h1: "get_db_connection mysql_env world_rows = (Some (MysqlConn 0), world_rows\<lparr>calls := 1\<rparr>)"
    and h2: "execute_raises mysql_env (MysqlConn 0) = False"
    and hc: "is_connected mysql_env (conn_no (MysqlConn 0)) = True"
    and h3: "fetchone (table world_rows) ''bob'' = Some garbage_row"
    and h4: "col_session_data garbage_row = Some ''not json''"
    and h5: "''not json'' \<noteq> []"
    and h6: "json_loads mysql_env ''not json'' = None"
    and h7: "fetchone (table world_rows) ''zed'' = None"
    by (simp_all add: get_db_connection_def fetchone_def sample_defs)
  have l: "log world_rows = []" by (simp add: sample_defs)
  show ?thesis
    using get_session_decode_failure_is_absent [OF h1 h2 hc h3 h4 h5 h6 h7] l by simp
qed

section \<open>Flagging a player\<close>

text \<open>
  C8. For a player without a row, \<^verbatim>\<open>flag_player_for_punishment\<close> leaves the table
  as it was and adds no commit and no broadcast to the effects, under every backend
  behaviour. It returns normally, unless the handle is lost before its release, when
  OperationalError leaves the call; and a following \<^verbatim>\<open>get_session\<close> (under any
  backend behaviour \<open>e'\<close>) never returns a session: it returns \<^verbatim>\<open>None\<close>, unless
  its own handle is lost, when it raises.
\<close>

theorem flag_nonexistent_is_noop:
  assumes "fetchone (table w) pid = None"
  shows "table (snd (flag_player_for_punishment e w pid lvl reason)) = table w \<and>
         effects (snd (flag_player_for_punishment e w pid lvl reason)) = effects w \<and>
         (fst (flag_player_for_punishment e w pid lvl reason) = Inr () \<or>
          fst (flag_player_for_punishment e w pid lvl reason) = Inl OperationalError) \<and>
         (is_connected e (calls w) = True \<longrightarrow>
          fst (flag_player_for_punishment e w pid lvl reason) = Inr ()) \<and>
         (fst (get_session e' (snd (flag_player_for_punishment e w pid lvl reason)) pid)
            = Inr PNone \<or>
          fst (get_session e' (snd (flag_player_for_punishment e w pid lvl reason)) pid)
            = Inl OperationalError) \<and>
         (is_connected e' (calls (snd (flag_player_for_punishment e w pid lvl reason))) = True
          \<longrightarrow> fst (get_session e' (snd (flag_player_for_punishment e w pid lvl reason)) pid)
                = Inr PNone)"
proof -
  let ?F = "flag_player_for_punishment e w pid lvl reason"
  let ?w1 = "snd (get_session e w pid)"
  have fr: "table ?w1 = table w \<and> effects ?w1 = effects w"
    using get_session_frame [of e w pid] by (cases "get_session e w pid") simp
  have g: "fst (get_session e w pid) = Inr PNone \<or> fst (get_session e w pid) = Inl OperationalError"
    using assms by (rule get_session_absent_outcome)
  have F: "(?F = (Inr (), logmsg WARNING
                     (''Attempted to flag non-existent session for player '' @ pid) ?w1))
           \<or> ?F = (Inl OperationalError, ?w1)"
    using g flag_falsy [of e w pid PNone lvl reason] flag_raises [of e w pid OperationalError lvl reason]
    by auto
  have t: "table (snd ?F) = table w" and ef: "effects (snd ?F) = effects w"
    using F fr by (auto simp: logmsg_frame)
  have out: "fst ?F = Inr () \<or> fst ?F = Inl OperationalError" using F by auto
  have ok: "is_connected e (calls w) = True \<longrightarrow> fst ?F = Inr ()"
  proof
    assume c: "is_connected e (calls w) = True"
    have "fst (get_session e w pid) = Inr PNone" using assms c by (rule get_session_absent)
    then show "fst ?F = Inr ()" using flag_falsy [of e w pid PNone lvl reason] by simp
  qed
  have ab: "fetchone (table (snd ?F)) pid = None" using t assms by simp
  have g2: "fst (get_session e' (snd ?F) pid) = Inr PNone \<or>
            fst (get_session e' (snd ?F) pid) = Inl OperationalError"
    using ab by (rule get_session_absent_outcome)
  have ok2: "is_connected e' (calls (snd ?F)) = True \<longrightarrow>
             fst (get_session e' (snd ?F) pid) = Inr PNone"
    using get_session_absent [OF ab] by blast
  show ?thesis using t ef out ok g2 ok2 by blast
qed

theorem flag_nonexistent_is_noop_witness:
  "fetchone (table world_rows) ''zed'' = None \<and>
   is_connected mysql_env (calls world_rows) = True \<and>
   table (snd (flag_player_for_punishment mysql_env world_rows ''zed'' ''high'' ''spam''))
     = table world_rows \<and>
   effects (snd (flag_player_for_punishment mysql_env world_rows ''zed'' ''high'' ''spam''))
     = effects world_rows \<and>
   fst (flag_player_for_punishment mysql_env world_rows ''zed'' ''high'' ''spam'') = Inr () \<and>
   fst (get_session mysql_env
          (snd (flag_player_for_punishment mysql_env world_rows ''zed'' ''high'' ''spam''))
          ''zed'') = Inr PNone"
proof -
  have h: "fetchone (table world_rows) ''zed'' = None"
    by (simp add: fetchone_def sample_defs)
  have c: "is_connected mysql_env (calls world_rows) = True"
    "is_connected mysql_env
       (calls (snd (flag_player_for_punishment mysql_env world_rows ''zed'' ''high'' ''spam'')))
       = True"
    by (simp_all add: sample_defs)
  show ?thesis
    using h c flag_nonexistent_is_noop [OF h, of mysql_env "''high''" "''spam''" mysql_env]
    by blast
qed

text \<open>
  C10. A row whose blob is the text \<^verbatim>\<open>{}\<close> decodes to the empty dict, which is
  falsy: \<^verbatim>\<open>flag_player_for_punishment\<close> takes the branch of the missing session.
  Under every backend behaviour it leaves the table (and so the stored \<^verbatim>\<open>{}\<close>) as
  it was and adds no commit and no broadcast; and when the handle is still connected
  at its release, it returns normally after logging the warning of the missing
  session. With the handle lost, OperationalError leaves the call instead.
\<close>

theorem flag_empty_document_is_noop:
  assumes "fetchone (table w) pid = Some r" and "col_session_data r = Some ''{}''"
    and "json_loads e ''{}'' = Some (PDict [])"
  shows "table (snd (flag_player_for_punishment e w pid lvl reason)) = table w \<and>
         effects (snd (flag_player_for_punishment e w pid lvl reason)) = effects w \<and>
         fetchone (table (snd (flag_player_for_punishment e w pid lvl reason))) pid = Some r \<and>
         (fst (flag_player_for_punishment e w pid lvl reason) = Inr () \<or>
          fst (flag_player_for_punishment e w pid lvl reason) = Inl OperationalError) \<and>
         (is_connected e (calls w) = True \<longrightarrow>
          fst (flag_player_for_punishment e w pid lvl reason) = Inr () \<and>
          log (snd (flag_player_for_punishment e w pid lvl reason))
            = log (snd (get_session e w pid))
              @ [(WARNING, ''Attempted to flag non-existent session for player '' @ pid)])"
proof -
  let ?F = "flag_player_for_punishment e w pid lvl reason"
  let ?w1 = "snd (get_session e w pid)"
  have falsy: "(\<exists>v. fst (get_session e w pid) = Inr v \<and> truthy v = False) \<or>
               fst (get_session e w pid) = Inl OperationalError"
  proof (cases "get_db_connection e w")
    case (Pair x w1)
    show ?thesis
    proof (cases x)
      case None
      with Pair show ?thesis by (simp add: get_session_no_conn)
    next
      case (Some c)
      have t: "table w1 = table w" using Pair by (simp add: get_db_connection_frame)
      have "fst (get_session_try e c pid w1) = PNone \<or> fst (get_session_try e c pid w1) = PDict []"
        using assms t by (simp add: get_session_try_def)
      then show ?thesis
        using Pair Some get_session_conn [of e w c w1 pid]
          release_outcome [of e c "snd (get_session_try e c pid w1)"]
        by auto
    qed
  qed
  have F: "(?F = (Inr (), logmsg WARNING
                     (''Attempted to flag non-existent session for player '' @ pid) ?w1))
           \<or> ?F = (Inl OperationalError, ?w1)"
    using falsy flag_falsy [of e w pid _ lvl reason] flag_raises [of e w pid OperationalError lvl reason]
    by auto
  have fr: "table ?w1 = table w \<and> effects ?w1 = effects w"
    using get_session_frame [of e w pid] by (cases "get_session e w pid") simp
  have t: "table (snd ?F) = table w" and ef: "effects (snd ?F) = effects w"
    using F fr by (auto simp: logmsg_frame)
  have out: "fst ?F = Inr () \<or> fst ?F = Inl OperationalError" using F by auto
  have ok: "is_connected e (calls w) = True \<longrightarrow>
            fst ?F = Inr () \<and>
            log (snd ?F) = log ?w1
              @ [(WARNING, ''Attempted to flag non-existent session for player '' @ pid)]"
  proof
    assume c: "is_connected e (calls w) = True"
    obtain v where v: "fst (get_session e w pid) = Inr v"
      using get_session_returns [OF c] by blast
    then have "\<not> truthy v" using falsy by auto
    then have "?F = (Inr (), logmsg WARNING
                     (''Attempted to flag non-existent session for player '' @ pid) ?w1)"
      using v by (rule flag_falsy [rotated])
    then show "fst ?F = Inr () \<and>
            log (snd ?F) = log ?w1
              @ [(WARNING, ''Attempted to flag non-existent session for player '' @ pid)]"
      by (simp add: logmsg_frame)
  qed
  show ?thesis using t ef out ok assms(1) by simp
qed

theorem flag_empty_document_is_noop_witness:
  "is_connected mysql_env (calls world_rows) = True \<and>
   fst (flag_player_for_punishment mysql_env world_rows ''dave'' ''high'' ''spam'') = Inr () \<and>
   log (snd (flag_player_for_punishment mysql_env world_rows ''dave'' ''high'' ''spam''))
     = [(WARNING, ''Attempted to flag non-existent session for player dave'')] \<and>
   table (snd (flag_player_for_punishment mysql_env world_rows ''dave'' ''high'' ''spam''))
     = table world_rows \<and>
   effects (snd (flag_player_for_punishment mysql_env world_rows ''dave'' ''high'' ''spam''))
     = effects world_rows \<and>
   fetchone (table (snd (flag_player_for_punishment mysql_env world_rows ''dave'' ''high'' ''spam'')))
     ''dave'' = Some empty_doc_row"
proof -
  have h1: "fetchone (table world_rows) ''dave'' = Some empty_doc_row"
    and h2: "col_session_data empty_doc_row = Some ''{}''"
    and h3: "json_loads mysql_env ''{}'' = Some (PDict [])"
    and c: "is_connected mysql_env (calls world_rows) = True"
    by (simp_all add: fetchone_def sample_defs)
  have l: "log (snd (get_session mysql_env world_rows ''dave'')) = []"
    by (simp add: op_defs sample_defs)
  show ?thesis
    using flag_empty_document_is_noop [OF h1 h2 h3, of "''high''" "''spam''"] l c h1 by simp
qed

section \<open>Saving and reading back\<close>

text \<open>
  C1, as stated: for every player and every JSON-serialisable document a save followed
  by a read gives the document back, stamped. On the SQLite handle that
  \<^verbatim>\<open>get_db_connection\<close> serves for the scheme \<^verbatim>\<open>sqlite\<close>, the statements of both
  functions are rejected: the save of a document that the codec writes and reads back
  returns normally, and the read that follows returns \<^verbatim>\<open>None\<close>.
\<close>

theorem save_then_get_sqlite_counterexample:
  "scheme sqlite_env = ''sqlite'' \<and>
   json_dumps sqlite_env (PDict [(''hp'', PNum 3), (''last_modified'', PNum 1700000000)])
     = Some player_blob \<and>
   json_loads sqlite_env player_blob
     = Some (PDict [(''hp'', PNum 3), (''last_modified'', PNum 1700000000)]) \<and>
   fst (save_session sqlite_env world_rows ''erin'' [(''hp'', PNum 3), (''last_modified'', PNum 5)])
     = Inr () \<and>
   fst (get_session sqlite_env
          (snd (snd (save_session sqlite_env world_rows ''erin''
                       [(''hp'', PNum 3), (''last_modified'', PNum 5)])))
          ''erin'')
     = Inr PNone"
  by (simp add: op_defs sample_defs Let_def)

text \<open>
  C1, amended. On the MySQL backend: when \<^verbatim>\<open>save_session(pid, d)\<close>, for a dict \<open>d\<close>
  with str keys, obtains a connection, its statement and commit succeed, its handle is
  still connected at its release, and the codec writes the stamped document as a
  non-empty text that it reads back, then the save returns normally and a following
  \<^verbatim>\<open>get_session(pid)\<close> that obtains a connection, whose query succeeds and whose
  handle is still connected at its release, in any world \<open>w'\<close> that holds the row the
  save left for \<open>pid\<close>, returns the stamped document: \<open>d\<close> with
  \<^verbatim>\<open>last_modified\<close> added or overwritten by the save-time timestamp, every other key
  as in \<open>d\<close>. On the SQLite backend every save returns normally and leaves the table
  as it was, and every read returns \<^verbatim>\<open>None\<close>.
\<close>

theorem save_then_get_roundtrip:
  assumes "scheme e = ''mysql''"
    and "get_db_connection e w = (Some c, w1)"
    and "execute_raises e c = False" and "commit_fails e (conn_no c) = False"
    and "is_connected e (conn_no c) = True"
    and "json_dumps e (PDict (dict_set d ''last_modified'' (PNum (time_time e (conn_no c))))) = Some s"
    and "s \<noteq> []"
    and "json_loads e s = Some (PDict (dict_set d ''last_modified'' (PNum (time_time e (conn_no c)))))"
    and "fetchone (table w') pid = fetchone (table (snd (snd (save_session e w pid d)))) pid"
    and "get_db_connection e w' = (Some c', w1')" and "execute_raises e c' = False"
    and "is_connected e (conn_no c') = True"
    and "scheme e2 = ''sqlite''"
  shows "fst (save_session e w pid d) = Inr () \<and>
         fst (get_session e w' pid)
           = Inr (PDict (dict_set d ''last_modified'' (PNum (time_time e (conn_no c))))) \<and>
         map_of (dict_set d ''last_modified'' (PNum (time_time e (conn_no c))))
           = (map_of d)(''last_modified'' \<mapsto> PNum (time_time e (conn_no c))) \<and>
         fst (save_session e2 w2 pid2 d2) = Inr () \<and>
         table (snd (snd (save_session e2 w2 pid2 d2))) = table w2 \<and>
         fst (get_session e2 (snd (snd (save_session e2 w2 pid2 d2))) pid2) = Inr PNone"
proof -
  let ?doc = "dict_set d ''last_modified'' (PNum (time_time e (conn_no c)))"
  let ?tbl = "upsert (current_timestamp e (conn_no c)) pid s (table w)"
  note ss = save_session_success [OF assms(2) assms(6) assms(3) assms(4), of pid]
  have sv: "fst (save_session e w pid d) = Inr ()"
    using ss release_connected [OF assms(5)] by simp
  have t1: "table w1 = table w" using assms(2) by (simp add: get_db_connection_frame)
  have tb: "table (snd (snd (save_session e w pid d))) = ?tbl"
    using ss t1 by (simp add: release_snd emit_frame)
  obtain r where r: "fetchone ?tbl pid = Some r" "col_session_data r = Some s"
    using fetchone_upsert_same by blast
  have t': "table w1' = table w'" using assms(10) by (simp add: get_db_connection_frame)
  have "get_session_try e c' pid w1' = (PDict ?doc, w1')"
    using assms(7,8,9,11) tb r t' by (simp add: get_session_try_def)
  then have gt: "fst (get_session e w' pid) = Inr (PDict ?doc)"
    using get_session_conn_ok [OF assms(10) assms(12), of pid] by simp
  have sq: "fst (save_session e2 w2 pid2 d2) = Inr () \<and>
            table (snd (snd (save_session e2 w2 pid2 d2))) = table w2"
    using assms(13) by (rule save_session_sqlite)
  have gq: "fst (get_session e2 (snd (snd (save_session e2 w2 pid2 d2))) pid2) = Inr PNone"
    using assms(13) by (rule get_session_sqlite)
  show ?thesis using sv gt sq gq by (simp add: map_of_dict_set)
qed

theorem save_then_get_roundtrip_witness:
  "fst (save_session mysql_env world_rows ''erin'' [(''hp'', PNum 3), (''last_modified'', PNum 5)])
     = Inr () \<and>
   fst (get_session mysql_env
          (snd (snd (save_session mysql_env world_rows ''erin''
                       [(''hp'', PNum 3), (''last_modified'', PNum 5)])))
          ''erin'')
     = Inr (PDict [(''hp'', PNum 3), (''last_modified'', PNum 1700000000)]) \<and>
   map_of [(''hp'', PNum 3), (''last_modified'', PNum 1700000000)]
     = (map_of [(''hp'', PNum 3), (''last_modified'', PNum 5)])
         (''last_modified'' \<mapsto> PNum 1700000000) \<and>
   fst (save_session sqlite_env world_rows ''erin'' [(''hp'', PNum 3)]) = Inr () \<and>
   table (snd (snd (save_session sqlite_env world_rows ''erin'' [(''hp'', PNum 3)])))
     = table world_rows \<and>
   fst (get_session sqlite_env
          (snd (snd (save_session sqlite_env world_rows ''erin'' [(''hp'', PNum 3)])))
          ''erin'') = Inr PNone"
proof -
  let ?d = "[(''hp'', PNum 3), (''last_modified'', PNum 5)]"
  let ?w' = "snd (snd (save_session mysql_env world_rows ''erin'' ?d))"
  have st: "dict_set ?d ''last_modified'' (PNum (time_time mysql_env (conn_no (MysqlConn 0))))
              = player_doc"
    by (simp add: sample_defs)
  have h0: "scheme mysql_env = ''mysql''"
    and h1: "get_db_connection mysql_env world_rows = (Some (MysqlConn 0), world_rows\<lparr>calls := 1\<rparr>)"
    and h2: "execute_raises mysql_env (MysqlConn 0) = False"
    and h3: "commit_fails mysql_env (conn_no (MysqlConn 0)) = False"
    and hc: "is_connected mysql_env (conn_no (MysqlConn 0)) = True"
    and h4: "json_dumps mysql_env
               (PDict (dict_set ?d ''last_modified''
                         (PNum (time_time mysql_env (conn_no (MysqlConn 0)))))) = Some player_blob"
    and h5: "player_blob \<noteq> []"
    and h6: "json_loads mysql_env player_blob
               = Some (PDict (dict_set ?d ''last_modified''
                                (PNum (time_time mysql_env (conn_no (MysqlConn 0))))))"
    and h7: "fetchone (table ?w') ''erin'' = fetchone (table ?w') ''erin''"
    and h9: "execute_raises mysql_env (MysqlConn 1) = False"
    and hc': "is_connected mysql_env (conn_no (MysqlConn 1)) = True"
    and hs: "scheme sqlite_env = ''sqlite''"
    by (simp_all add: get_db_connection_def sample_defs)
  have h8: "get_db_connection mysql_env ?w' = (Some (MysqlConn 1), ?w'\<lparr>calls := 2\<rparr>)"
    by (simp add: op_defs sample_defs Let_def)
  show ?thesis
    using save_then_get_roundtrip [OF h0 h1 h2 h3 hc h4 h5 h6 h7 h8 h9 hc' hs,
            of world_rows "''erin''" "[(''hp'', PNum 3)]"] st
    by (simp add: player_doc_def)
qed

text \<open>
  C9. Whenever \<^verbatim>\<open>save_session\<close> obtains a connection (and so reaches the stamping
  step), the caller's dict after the call is the argument with \<^verbatim>\<open>last_modified\<close>
  set. \<^verbatim>\<open>create_or_get_session\<close> on a player without a row, when the handle of its
  read is still connected at its release, its save obtains a connection that is still
  connected at its release and \<^verbatim>\<open>json.dumps\<close> accepts the stamped dict, returns the
  very dict it passed to \<^verbatim>\<open>save_session\<close> as that call left it, which is
  \<^verbatim>\<open>{last_modified: t}\<close> and not the \<^verbatim>\<open>{}\<close> it was created as.
\<close>

theorem save_session_mutates_argument:
  assumes "get_db_connection e w = (Some c, w1)"
    and "fetchone (table v) p = None"
    and "is_connected e' (calls v) = True"
    and "get_db_connection e' (snd (get_session e' v p)) = (Some c', v1)"
    and "is_connected e' (conn_no c') = True"
    and "json_dumps e' (PDict [(''last_modified'', PNum (time_time e' (conn_no c')))]) = Some s"
  shows "fst (snd (save_session e w pid d))
           = dict_set d ''last_modified'' (PNum (time_time e (conn_no c))) \<and>
         map_of (fst (snd (save_session e w pid d))) ''last_modified''
           = Some (PNum (time_time e (conn_no c))) \<and>
         fst (create_or_get_session e' v p)
           = Inr (PDict (fst (snd (save_session e' (snd (get_session e' v p)) p [])))) \<and>
         fst (create_or_get_session e' v p)
           = Inr (PDict [(''last_modified'', PNum (time_time e' (conn_no c')))])"
proof -
  have a: "fst (snd (save_session e w pid d))
             = dict_set d ''last_modified'' (PNum (time_time e (conn_no c)))"
    using assms(1) by (rule save_session_doc)
  have g: "fst (get_session e' v p) = Inr PNone"
    using assms(2) assms(3) by (rule get_session_absent)
  let ?v1 = "snd (get_session e' v p)"
  have doc: "fst (snd (save_session e' ?v1 p []))
               = [(''last_modified'', PNum (time_time e' (conn_no c')))]"
    using save_session_doc [OF assms(4), of p "[]"] by simp
  have ok: "fst (save_session e' ?v1 p []) = Inr ()"
  proof (cases "execute_raises e' c' \<or> commit_fails e' (conn_no c')")
    case True
    then show ?thesis using assms(4,6) save_failed_bound [OF assms(5), of p v1]
      by (auto simp: save_session_def split: prod.splits)
  next
    case False
    then show ?thesis
      using save_session_success [OF assms(4), of "[]" s p] assms(6)
        release_connected [OF assms(5)]
      by simp
  qed
  have "fst (create_or_get_session e' v p)
          = Inr (PDict (fst (snd (save_session e' ?v1 p []))))"
    using g ok
    by (cases "get_session e' v p"; cases "save_session e' ?v1 p []")
       (auto simp: create_or_get_session_def)
  then show ?thesis using a doc by (simp add: map_of_dict_set)
qed

theorem save_session_mutates_argument_witness:
  "fst (snd (save_session mysql_env world_rows ''erin'' [(''hp'', PNum 3)]))
     = [(''hp'', PNum 3), (''last_modified'', PNum 1700000000)] \<and>
   map_of (fst (snd (save_session mysql_env world_rows ''erin'' [(''hp'', PNum 3)]))) ''last_modified''
     = Some (PNum 1700000000) \<and>
   fst (create_or_get_session mysql_env world_rows ''erin'')
     = Inr (PDict (fst (snd (save_session mysql_env
                                (snd (get_session mysql_env world_rows ''erin'')) ''erin'' [])))) \<and>
   fst (create_or_get_session mysql_env world_rows ''erin'')
     = Inr (PDict [(''last_modified'', PNum 1700000000)])"
proof -
  let ?v1 = "snd (get_session mysql_env world_rows ''erin'')"
  have h1: "get_db_connection mysql_env world_rows = (Some (MysqlConn 0), world_rows\<lparr>calls := 1\<rparr>)"
    and h2: "fetchone (table world_rows) ''erin'' = None"
    and hc: "is_connected mysql_env (calls world_rows) = True"
    and hc': "is_connected mysql_env (conn_no (MysqlConn 1)) = True"
    and h4: "json_dumps mysql_env
               (PDict [(''last_modified'', PNum (time_time mysql_env (conn_no (MysqlConn 1))))])
               = Some stamped_blob"
    by (simp_all add: get_db_connection_def fetchone_def sample_defs)
  have h3: "get_db_connection mysql_env ?v1 = (Some (MysqlConn 1), ?v1\<lparr>calls := 2\<rparr>)"
    by (simp add: op_defs sample_defs)
  have t: "time_time mysql_env (conn_no (MysqlConn 0)) = 1700000000"
    "time_time mysql_env (conn_no (MysqlConn 1)) = 1700000000"
    by (simp_all add: sample_defs)
  have d: "fst (snd (save_session mysql_env ?v1 ''erin'' []))
             = [(''last_modified'', PNum 1700000000)]"
    using save_session_doc [OF h3, of "''erin''" "[]"] t by simp
  show ?thesis
    using save_session_mutates_argument [OF h1 h2 hc h3 hc' h4, of "''erin''" "[(''hp'', PNum 3)]"] t d
    by simp
qed

section \<open>Commit, then broadcast\<close>

text \<open>
  C5. Of the effects that one \<^verbatim>\<open>save_session\<close> call adds, at most one is a
  dispatch to the WebSocket sink and at most one a dispatch to the live sink; every
  dispatch comes after a commit of the same call; and no dispatch is added when no
  connection is obtained, or when serialisation, the statement or the commit fails.
\<close>

theorem save_session_dispatch_after_commit:
  "effects (snd (snd (save_session e w pid d))) = effects w @ save_effects e w pid d \<and>
   length (filter is_ws (save_effects e w pid d)) \<le> 1 \<and>
   length (filter is_live (save_effects e w pid d)) \<le> 1 \<and>
   (\<forall>i < length (save_effects e w pid d).
      is_dispatch (save_effects e w pid d ! i) \<longrightarrow>
      (\<exists>j < i. is_commit (save_effects e w pid d ! j))) \<and>
   (fst (get_db_connection e w) = None \<longrightarrow> filter is_dispatch (save_effects e w pid d) = []) \<and>
   (\<forall>c. fst (get_db_connection e w) = Some c \<and>
        (json_dumps e (PDict (dict_set d ''last_modified'' (PNum (time_time e (conn_no c))))) = None
         \<or> execute_raises e c \<or> commit_fails e (conn_no c))
        \<longrightarrow> filter is_dispatch (save_effects e w pid d) = [])"
proof -
  let ?X = "save_effects e w pid d"
  have X: "?X = (case fst (get_db_connection e w) of
        None \<Rightarrow> []
      | Some c \<Rightarrow>
          (case json_dumps e (PDict (dict_set d ''last_modified'' (PNum (time_time e (conn_no c))))) of
             None \<Rightarrow> []
           | Some s \<Rightarrow>
               if execute_raises e c \<or> commit_fails e (conn_no c) then []
               else [Committed pid s,
                     WsSend pid (PDict [(''type'', PStr ''full_state''),
                                        (''data'', PDict (dict_set d ''last_modified''
                                                            (PNum (time_time e (conn_no c)))))]),
                     LiveUpdate pid (PDict (dict_set d ''last_modified''
                                              (PNum (time_time e (conn_no c)))))]))"
    unfolding save_effects_def by (subst save_session_effects) simp
  have a: "effects (snd (snd (save_session e w pid d))) = effects w @ ?X"
    unfolding X by (rule save_session_effects)
  have b: "length (filter is_ws ?X) \<le> 1" "length (filter is_live ?X) \<le> 1"
    unfolding X by (simp_all split: option.splits)
  have c: "\<forall>i < length ?X. is_dispatch (?X ! i) \<longrightarrow> (\<exists>j < i. is_commit (?X ! j))"
    unfolding X by (auto split: option.splits simp: less_Suc_eq nth_Cons')
  have d1: "fst (get_db_connection e w) = None \<longrightarrow> filter is_dispatch ?X = []"
    unfolding X by simp
  have d2: "\<forall>c. fst (get_db_connection e w) = Some c \<and>
        (json_dumps e (PDict (dict_set d ''last_modified'' (PNum (time_time e (conn_no c))))) = None
         \<or> execute_raises e c \<or> commit_fails e (conn_no c))
        \<longrightarrow> filter is_dispatch ?X = []"
    unfolding X by (auto split: option.splits)
  show ?thesis using a b c d1 d2 by blast
qed

theorem save_session_dispatch_after_commit_witness:
  "save_effects mysql_env world0 ''alice'' []
     = [Committed ''alice'' stamped_blob,
        WsSend ''alice'' (PDict [(''type'', PStr ''full_state''), (''data'', PDict stamped_doc)]),
        LiveUpdate ''alice'' (PDict stamped_doc)] \<and>
   fst (get_db_connection mysql_env world_no_pool) = None \<and>
   filter is_dispatch (save_effects mysql_env world_no_pool ''alice'' []) = [] \<and>
   fst (get_db_connection commit_failing_env world0) = Some (MysqlConn 0) \<and>
   commit_fails commit_failing_env (conn_no (MysqlConn 0)) = True \<and>
   filter is_dispatch (save_effects commit_failing_env world0 ''alice'' []) = []"
proof -
  have s: "save_effects mysql_env world0 ''alice'' []
     = [Committed ''alice'' stamped_blob,
        WsSend ''alice'' (PDict [(''type'', PStr ''full_state''), (''data'', PDict stamped_doc)]),
        LiveUpdate ''alice'' (PDict stamped_doc)]"
    by (simp add: save_effects_def effects_def op_defs sample_defs Let_def)
  have h1: "fst (get_db_connection mysql_env world_no_pool) = None"
    and h2: "fst (get_db_connection commit_failing_env world0) = Some (MysqlConn 0)"
    and h3: "commit_fails commit_failing_env (conn_no (MysqlConn 0)) = True"
    by (simp_all add: get_db_connection_def logmsg_def sample_defs)
  have a: "filter is_dispatch (save_effects mysql_env world_no_pool ''alice'' []) = []"
    using save_session_dispatch_after_commit [of mysql_env world_no_pool "''alice''" "[]"] h1
    by blast
  have b: "filter is_dispatch (save_effects commit_failing_env world0 ''alice'' []) = []"
    using save_session_dispatch_after_commit [of commit_failing_env world0 "''alice''" "[]"] h2 h3
    by blast
  show ?thesis using s h1 h2 h3 a b by blast
qed

section \<open>Listing recent sessions\<close>

lemma summaries_decode_failure:
  "r \<in> set rows \<Longrightarrow> json_loads e (str_of_column (col_session_data r)) = None
     \<Longrightarrow> \<exists>x. summaries e rows = Inl x"
  by (induction rows) (auto split: option.splits pyval.splits sum.splits)

lemma summaries_all_decode:
  "\<forall>r \<in> set rows. \<exists>d. json_loads e (str_of_column (col_session_data r)) = Some (PDict d)
     \<Longrightarrow> \<exists>results. summaries e rows = Inr results \<and> length results = length rows \<and>
           (\<forall>i < length rows. summaries e [rows ! i] = Inr [results ! i])"
proof (induction rows)
  case Nil
  then show ?case by simp
next
  case (Cons r rows)
  then obtain results where rs: "summaries e rows = Inr results" "length results = length rows"
    "\<forall>i < length rows. summaries e [rows ! i] = Inr [results ! i]" by auto
  from Cons.prems obtain d where d: "json_loads e (str_of_column (col_session_data r)) = Some (PDict d)"
    by auto
  let ?s = "PDict [(''player_id'', PStr (encrypt_player_id e (col_player_id r))),
                   (''display_name'', PStr (display_name (col_player_id r))),
                   (''last_modified'', dict_get d ''last_modified'' (PNum 0))]"
  have "summaries e (r # rows) = Inr (?s # results)" using d rs(1) by simp
  moreover have "summaries e [r] = Inr [?s]" using d by simp
  ultimately show ?case using rs(2,3)
    by (auto simp: nth_Cons' simp del: summaries.simps)
qed

lemma get_most_recent_sessions_conn:
  assumes "get_db_connection e w = (Some c, w1)" and "execute_raises e c = False" and "0 \<le> limit"
    and "is_connected e (conn_no c) = True"
  shows "fst (get_most_recent_sessions e w limit)
           = (case summaries e (fetchall_recent (table w) (nat limit)) of
                Inl x \<Rightarrow> Inr [] | Inr results \<Rightarrow> Inr results)
         \<and> log (snd (get_most_recent_sessions e w limit))
           = (case summaries e (fetchall_recent (table w) (nat limit)) of
                Inl x \<Rightarrow> log w @ [(ERROR, ''Failed to get most recent sessions'')]
              | Inr results \<Rightarrow> log w)"
proof -
  have t: "table w1 = table w" and l: "log w1 = log w"
    using assms(1) by (simp_all add: get_db_connection_frame get_db_connection_log_ok)
  show ?thesis
  proof (cases "summaries e (fetchall_recent (table w) (nat limit))")
    case (Inl a)
    let ?w2 = "logmsg ERROR ''Failed to get most recent sessions'' w1"
    obtain x w3 where rl: "release e c True ?w2 = (x, w3)" by (cases "release e c True ?w2")
    have x: "x = None" using release_connected [OF assms(4), of ?w2] rl by simp
    have l3: "log w3 = log ?w2" using release_frame [OF rl] by simp
    have "get_most_recent_sessions e w limit = (Inr [], w3)"
      using assms Inl t rl x by (simp add: get_most_recent_sessions_def)
    then show ?thesis using Inl l l3 by (simp add: logmsg_frame)
  next
    case (Inr results)
    obtain x w3 where rl: "release e c True w1 = (x, w3)" by (cases "release e c True w1")
    have x: "x = None" using release_connected [OF assms(4), of w1] rl by simp
    have l3: "log w3 = log w1" using release_frame [OF rl] by simp
    have "get_most_recent_sessions e w limit = (Inr results, w3)"
      using assms Inr t rl x by (simp add: get_most_recent_sessions_def)
    then show ?thesis using Inr l l3 by simp
  qed
qed

text \<open>
  C3, as stated: when the query succeeds, a row that decodes contributes a summary
  even if another row fails to decode. In the code the loop stands inside the one
  \<^verbatim>\<open>try\<close> of the function: with one undecodable row among the fetched rows the
  call returns the empty list, although another fetched row decodes.
\<close>

theorem recent_sessions_counterexample:
  "stamped_row \<in> set (fetchall_recent (table world_rows) (nat 10)) \<and>
   json_loads mysql_env (str_of_column (col_session_data stamped_row)) = Some (PDict stamped_doc) \<and>
   garbage_row \<in> set (fetchall_recent (table world_rows) (nat 10)) \<and>
   json_loads mysql_env (str_of_column (col_session_data garbage_row)) = None \<and>
   fst (get_most_recent_sessions mysql_env world_rows 10) = Inr []"
  by (simp add: get_most_recent_sessions_def fetchall_recent_def op_defs sample_defs)

text \<open>
  C3, amended: when the connection and the query succeed and the handle is still
  connected when it is released, then if every fetched row decodes to a JSON object
  the result has one summary per fetched row, in the order of the rows, each the
  summary that its row gives alone; and if some fetched row fails to decode, the
  failure is logged once and the call returns the empty list, so that no row
  contributes a summary.
\<close>

theorem recent_sessions_all_or_nothing:
  assumes "get_db_connection e w = (Some c, w1)" and "execute_raises e c = False" and "0 \<le> limit"
    and "is_connected e (conn_no c) = True"
  shows "((\<forall>r \<in> set (fetchall_recent (table w) (nat limit)).
             \<exists>d. json_loads e (str_of_column (col_session_data r)) = Some (PDict d)) \<longrightarrow>
          (\<exists>results. fst (get_most_recent_sessions e w limit) = Inr results \<and>
             length results = length (fetchall_recent (table w) (nat limit)) \<and>
             (\<forall>i < length results.
                summaries e [fetchall_recent (table w) (nat limit) ! i] = Inr [results ! i]))) \<and>
         ((\<exists>r \<in> set (fetchall_recent (table w) (nat limit)).
             json_loads e (str_of_column (col_session_data r)) = None) \<longrightarrow>
          fst (get_most_recent_sessions e w limit) = Inr [] \<and>
          log (snd (get_most_recent_sessions e w limit))
            = log w @ [(ERROR, ''Failed to get most recent sessions'')])"
proof (intro conjI impI)
  assume "\<forall>r \<in> set (fetchall_recent (table w) (nat limit)).
             \<exists>d. json_loads e (str_of_column (col_session_data r)) = Some (PDict d)"
  from summaries_all_decode [OF this]
  obtain results where rs: "summaries e (fetchall_recent (table w) (nat limit)) = Inr results"
    "length results = length (fetchall_recent (table w) (nat limit))"
    "\<forall>i < length (fetchall_recent (table w) (nat limit)).
        summaries e [fetchall_recent (table w) (nat limit) ! i] = Inr [results ! i]"
    by blast
  have "fst (get_most_recent_sessions e w limit) = Inr results"
    using get_most_recent_sessions_conn [OF assms] rs(1) by simp
  then show "\<exists>results. fst (get_most_recent_sessions e w limit) = Inr results \<and>
             length results = length (fetchall_recent (table w) (nat limit)) \<and>
             (\<forall>i < length results.
                summaries e [fetchall_recent (table w) (nat limit) ! i] = Inr [results ! i])"
    using rs(2,3) by auto
next
  assume "\<exists>r \<in> set (fetchall_recent (table w) (nat limit)).
             json_loads e (str_of_column (col_session_data r)) = None"
  then obtain x where x: "summaries e (fetchall_recent (table w) (nat limit)) = Inl x"
    using summaries_decode_failure by blast
  show "fst (get_most_recent_sessions e w limit) = Inr []"
    using get_most_recent_sessions_conn [OF assms] x by simp
  show "log (snd (get_most_recent_sessions e w limit))
            = log w @ [(ERROR, ''Failed to get most recent sessions'')]"
    using get_most_recent_sessions_conn [OF assms] x by simp
qed

theorem recent_sessions_all_or_nothing_witness:
  "(\<exists>results. fst (get_most_recent_sessions mysql_env world_decodable 10) = Inr results \<and>
      length results = 2 \<and>
      summaries mysql_env [history_row] = Inr [results ! 0] \<and>
      summaries mysql_env [stamped_row] = Inr [results ! 1]) \<and>
   fst (get_most_recent_sessions mysql_env world_rows 10) = Inr [] \<and>
   log (snd (get_most_recent_sessions mysql_env world_rows 10))
     = [(ERROR, ''Failed to get most recent sessions'')]"
proof -
  have c1: "get_db_connection mysql_env world_decodable
              = (Some (MysqlConn 0), world_decodable\<lparr>calls := 1\<rparr>)"
    and c2: "get_db_connection mysql_env world_rows
              = (Some (MysqlConn 0), world_rows\<lparr>calls := 1\<rparr>)"
    and ex: "execute_raises mysql_env (MysqlConn 0) = False"
    and lim: "(0::int) \<le> 10"
    and co: "is_connected mysql_env (conn_no (MysqlConn 0)) = True"
    by (simp_all add: get_db_connection_def sample_defs)
  have rows1: "fetchall_recent (table world_decodable) (nat 10) = [history_row, stamped_row]"
    by (simp add: fetchall_recent_def sample_defs)
  have rows2: "fetchall_recent (table world_rows) (nat 10)
                 = [empty_doc_row, history_row, garbage_row, stamped_row]"
    by (simp add: fetchall_recent_def sample_defs)
  have dec: "json_loads mysql_env (str_of_column (col_session_data history_row))
               = Some (PDict history_doc)"
    "json_loads mysql_env (str_of_column (col_session_data stamped_row))
               = Some (PDict stamped_doc)"
    "json_loads mysql_env (str_of_column (col_session_data garbage_row)) = None"
    by (simp_all add: sample_defs)
  have all: "\<forall>r \<in> set (fetchall_recent (table world_decodable) (nat 10)).
               \<exists>d. json_loads mysql_env (str_of_column (col_session_data r)) = Some (PDict d)"
    unfolding rows1 using dec by simp
  have some: "\<exists>r \<in> set (fetchall_recent (table world_rows) (nat 10)).
               json_loads mysql_env (str_of_column (col_session_data r)) = None"
    unfolding rows2 using dec by simp
  have a: "\<exists>results. fst (get_most_recent_sessions mysql_env world_decodable 10) = Inr results \<and>
      length results = 2 \<and>
      summaries mysql_env [history_row] = Inr [results ! 0] \<and>
      summaries mysql_env [stamped_row] = Inr [results ! 1]"
  proof -
    from recent_sessions_all_or_nothing [OF c1 ex lim co] all
    obtain results where r: "fst (get_most_recent_sessions mysql_env world_decodable 10) = Inr results"
      "length results = length (fetchall_recent (table world_decodable) (nat 10))"
      "\<forall>i < length results.
          summaries mysql_env [fetchall_recent (table world_decodable) (nat 10) ! i]
            = Inr [results ! i]"
      by blast
    have l: "length results = 2" using r(2) unfolding rows1 by simp
    have i: "(0::nat) < length results" "(1::nat) < length results" using l by simp_all
    have n: "fetchall_recent (table world_decodable) (nat 10) ! 0 = history_row"
      "fetchall_recent (table world_decodable) (nat 10) ! 1 = stamped_row"
      unfolding rows1 by simp_all
    have "summaries mysql_env [history_row] = Inr [results ! 0]"
      "summaries mysql_env [stamped_row] = Inr [results ! 1]"
      using r(3) i n by metis+
    then show ?thesis using r(1) l by simp
  qed
  have b: "fst (get_most_recent_sessions mysql_env world_rows 10) = Inr [] \<and>
           log (snd (get_most_recent_sessions mysql_env world_rows 10))
             = log world_rows @ [(ERROR, ''Failed to get most recent sessions'')]"
    using recent_sessions_all_or_nothing [OF c2 ex lim co] some by blast
  have "log world_rows = []" by (simp add: sample_defs)
  then show ?thesis using a b by simp
qed

end
